theory Spec2Isabelle
  imports Complex_Main "HOL-Library.Log_Nat"
begin

section \<open>The WebSocket music player (client/src/MusicPlayer.tsx)\<close>

text \<open>
  A shallow embedding of the component's four pieces of logic: the chord resolver
  \<open>chordToNotes\<close>, the playback dispatcher \<open>playInstrument\<close>, the socket message handler
  \<open>onMessage\<close> and the two audio-context actions. Everything the component does to the
  outside (calls into the synthesis library, console output, reads of the audio clock) is
  recorded in an explicit \<open>world\<close>; everything the platform decides (what \<open>JSON.parse\<close>
  returns, whether a library call throws, what the clock reads, what \<open>resume\<close> and
  \<open>close\<close> do) is a field of an \<open>env\<close> the functions take as a parameter. Times are
  JavaScript numbers, computed in double precision as the source computes them.
\<close>

subsection \<open>Numbers\<close>

text \<open>
  A JavaScript number is an IEEE-754 binary64 value: a finite double, given by the rational
  it denotes, an infinity or NaN. The sign of zero is not represented; no sum or product
  below can tell the two zeros apart.
\<close>

datatype number = Num rat | PosInf | NegInf | NaN

definition pow2 :: "int \<Rightarrow> rat" where
  "pow2 k = (if 0 \<le> k then 2 ^ nat k else 1 / 2 ^ nat (- k))"

text \<open>The binary exponent of a positive rational: \<open>pow2 (ilog2 x) \<le> x < pow2 (ilog2 x + 1)\<close>.\<close>

definition ilog2 :: "rat \<Rightarrow> int" where
  "ilog2 x =
     (let (p, q) = quotient_of x; e0 = bitlen p - bitlen q
      in if pow2 e0 \<le> x then e0 else e0 - 1)"

text \<open>The nearest integer, the even one of the two when \<open>x\<close> lies halfway.\<close>

definition round_half_even :: "rat \<Rightarrow> int" where
  "round_half_even x =
     (let f = \<lfloor>x\<rfloor>; d = x - of_int f
      in if d < 1 / 2 then f else if 1 / 2 < d then f + 1 else if even f then f else f + 1)"

text \<open>
  Rounding to nearest, ties to even: the significand has 53 bits, the least exponent of
  the last place is \<open>-1074\<close> (subnormal numbers), and a result of magnitude \<open>2^1024\<close>
  or more overflows to an infinity. A decimal literal of the source, and the exact result
  of every arithmetic operation, is rounded this way.
\<close>

definition to_double :: "rat \<Rightarrow> number" where
  "to_double x =
     (if x = 0 then Num 0
      else let q = max (ilog2 \<bar>x\<bar> - 52) (- 1074);
               r = of_int (round_half_even (x / pow2 q)) * pow2 q
           in if pow2 1024 \<le> r then PosInf
              else if r \<le> - pow2 1024 then NegInf
              else Num r)"

fun number_neg :: "number \<Rightarrow> number" where
  "number_neg (Num a) = Num (- a)"
| "number_neg PosInf = NegInf"
| "number_neg NegInf = PosInf"
| "number_neg NaN = NaN"

fun number_add :: "number \<Rightarrow> number \<Rightarrow> number" where
  "number_add (Num a) (Num b) = to_double (a + b)"
| "number_add NaN y = NaN"
| "number_add x NaN = NaN"
| "number_add PosInf NegInf = NaN"
| "number_add NegInf PosInf = NaN"
| "number_add PosInf y = PosInf"
| "number_add x PosInf = PosInf"
| "number_add NegInf y = NegInf"
| "number_add x NegInf = NegInf"

fun number_mul :: "number \<Rightarrow> number \<Rightarrow> number" where
  "number_mul (Num a) (Num b) = to_double (a * b)"
| "number_mul NaN y = NaN"
| "number_mul x NaN = NaN"
| "number_mul (Num a) y = (if a = 0 then NaN else if 0 < a then y else number_neg y)"
| "number_mul x (Num b) = (if b = 0 then NaN else if 0 < b then x else number_neg x)"
| "number_mul PosInf y = y"
| "number_mul NegInf y = number_neg y"

subsection \<open>Values, exceptions and property lookup\<close>

text \<open>
  The result of \<open>JSON.parse\<close>. \<open>JObject fs\<close> is the parsed object: \<open>fs\<close> lists its own
  properties in the order \<open>Object.entries\<close> enumerates them. The numeric value of a number
  is never inspected by the component.
\<close>

datatype json =
    JNull
  | JBool bool
  | JNumber number
  | JString string
  | JArray "json list"
  | JObject "(string \<times> json) list"

text \<open>
  The result of reading a property \<open>obj[key]\<close> of an object written as a literal: the
  object's own value, a member inherited from \<open>Object.prototype\<close> (a function, or the
  prototype object itself for \<open>__proto__\<close>), or \<open>undefined\<close>.
\<close>

datatype 'a lookup = Own 'a | Inherited string | Missing

text \<open>The property names every object literal inherits in a browser.\<close>

definition Object_prototype_keys :: "string list" where
  "Object_prototype_keys =
     [''constructor'', ''__defineGetter__'', ''__defineSetter__'', ''hasOwnProperty'',
      ''__lookupGetter__'', ''__lookupSetter__'', ''isPrototypeOf'', ''propertyIsEnumerable'',
      ''toString'', ''valueOf'', ''__proto__'', ''toLocaleString'']"

definition obj_get :: "(string \<times> 'a) list \<Rightarrow> string \<Rightarrow> 'a lookup" where
  "obj_get props key =
     (case map_of props key of
        Some v \<Rightarrow> Own v
      | None \<Rightarrow> if key \<in> set Object_prototype_keys then Inherited key else Missing)"

text \<open>
  A call into the synthesis library or the audio context. The first argument of a trigger
  call is the key of the synth set under which the receiving synthesizer is stored.
\<close>

datatype tone_call =
    TriggerAttack string string number
  | TriggerReleaseNote string string number
  | TriggerRelease string number
  | TriggerAttackRelease string string "string lookup" number
  | Resume
  | Close

datatype exn =
    SyntaxError
  | TypeError string
  | ToneError tone_call
  | ContextError string

datatype console_entry =
    ConsoleLog string
  | ConsoleError string "exn option"

subsection \<open>The world and the platform\<close>

record world =
  calls :: "tone_call list"
  console :: "console_entry list"
  reads :: nat
  ctx :: string

record env =
  JSON_parse :: "string \<Rightarrow> exn + json"
  raises :: "tone_call list \<Rightarrow> tone_call \<Rightarrow> bool"
  clock :: "nat \<Rightarrow> number"
  ctx_resume :: "string \<Rightarrow> exn + string"
  ctx_close :: "string \<Rightarrow> exn + string"

text \<open>
  A statement returns the exception it threw, if any, together with the world it left
  behind: what was done before a throw stays done.
\<close>

type_synonym outcome = "exn option \<times> world"

definition console_log :: "string \<Rightarrow> world \<Rightarrow> world" where
  "console_log msg w = w\<lparr>console := console w @ [ConsoleLog msg]\<rparr>"

definition console_error :: "string \<Rightarrow> exn option \<Rightarrow> world \<Rightarrow> world" where
  "console_error msg err w = w\<lparr>console := console w @ [ConsoleError msg err]\<rparr>"

text \<open>
  A library call is recorded when it is made, whether it then returns or throws.
\<close>

definition invoke :: "env \<Rightarrow> tone_call \<Rightarrow> world \<Rightarrow> outcome" where
  "invoke e c w =
     (let w' = w\<lparr>calls := calls w @ [c]\<rparr>
      in if raises e (calls w) c then (Some (ToneError c), w') else (None, w'))"

text \<open>\<open>Tone.now()\<close>: the next reading of the audio clock.\<close>

definition Tone_now :: "env \<Rightarrow> world \<Rightarrow> number \<times> world" where
  "Tone_now e w = (clock e (reads w), w\<lparr>reads := Suc (reads w)\<rparr>)"

subsection \<open>The synth set\<close>

text \<open>
  What the dispatcher asks of a synthesizer object at run time: whether it is an instance
  of the sampler class, and whether it has a \<open>triggerAttack\<close> member.
\<close>

record tone_synth =
  instanceof_Sampler :: bool
  has_triggerAttack :: bool

record Synths =
  kick :: tone_synth
  snare :: tone_synth
  bass_drum :: tone_synth
  hihat :: tone_synth
  bass_guitar :: tone_synth
  guitar :: tone_synth
  piano :: tone_synth

definition Synths_props :: "Synths \<Rightarrow> (string \<times> tone_synth) list" where
  "Synths_props ss =
     [(''kick'', kick ss), (''snare'', snare ss), (''bass_drum'', bass_drum ss),
      (''hihat'', hihat ss), (''bass_guitar'', bass_guitar ss), (''guitar'', guitar ss),
      (''piano'', piano ss)]"

definition timeTable :: "(string \<times> string) list" where
  "timeTable =
     [(''snare'', ''8n''), (''kick'', ''2n''), (''bass_drum'', ''2n''), (''hihat'', ''16n''),
      (''bass_guitar'', ''2n''), (''guitar'', ''2n''), (''piano'', ''2n'')]"

subsection \<open>Chord resolver\<close>

definition chordMap :: "(string \<times> string list) list" where
  "chordMap =
     [(''Amaj'', [''A'', ''C#'', ''E'']),
      (''Bmaj'', [''B'', ''D#'', ''F#'']),
      (''Cmaj'', [''C'', ''E'', ''G'']),
      (''Dmaj'', [''D'', ''F#'', ''A'']),
      (''Emaj'', [''E'', ''G#'', ''B'']),
      (''Fmaj'', [''F'', ''A'', ''C'']),
      (''Gmaj'', [''G'', ''B'', ''D'']),
      (''Amin'', [''A'', ''C'', ''E'']),
      (''Bmin'', [''B'', ''D'', ''F#'']),
      (''Cmin'', [''C'', ''Eb'', ''G'']),
      (''Dmin'', [''D'', ''F'', ''A'']),
      (''Emin'', [''E'', ''G'', ''B'']),
      (''Fmin'', [''F'', ''Ab'', ''C'']),
      (''Gmin'', [''G'', ''Bb'', ''D''])]"

text \<open>
  \<open>chordMap[chord] || []\<close>: an array and an inherited member are both truthy, so only
  \<open>undefined\<close> is replaced by the empty array.
\<close>

definition chordToNotes :: "string \<Rightarrow> string list lookup" where
  "chordToNotes chord =
     (case obj_get chordMap chord of
        Missing \<Rightarrow> Own []
      | v \<Rightarrow> v)"

subsection \<open>Playback dispatcher\<close>

definition noteWithOctave :: "string \<Rightarrow> string" where
  "noteWithOctave note = (if length note = 1 then note @ ''4'' else note)"

text \<open>
  \<open>Tone.now() + index * 0.2 + 0.1\<close>, as a function of the clock reading and the index:
  the product first, then the two sums from left to right, each rounded. An array index
  is an integer below \<open>2^32\<close> and so a double as it stands.
\<close>

definition startTime :: "number \<Rightarrow> nat \<Rightarrow> number" where
  "startTime now index =
     number_add (number_add now (number_mul (Num (of_nat index)) (to_double 0.2))) (to_double 0.1)"

text \<open>
  The body of the \<open>forEach\<close> callback. For a value inherited from \<open>Object.prototype\<close> the
  sampler test and the \<open>in\<close> test are both false and the member \<open>triggerAttackRelease\<close> is
  \<open>undefined\<close>, so the last branch throws; \<open>in\<close> applied to \<open>undefined\<close> throws.
\<close>

definition playNote ::
  "env \<Rightarrow> string \<Rightarrow> tone_synth lookup \<Rightarrow> string \<Rightarrow> nat \<Rightarrow> world \<Rightarrow> outcome" where
  "playNote e instrument synth note index w =
     (let n = noteWithOctave note;
          (now, w1) = Tone_now e w;
          start = startTime now index
      in case synth of
           Own s \<Rightarrow>
             if instanceof_Sampler s then
               (case invoke e (TriggerAttack instrument n start) w1 of
                  (Some err, w2) \<Rightarrow> (Some err, w2)
                | (None, w2) \<Rightarrow>
                    invoke e (TriggerReleaseNote instrument n (number_add start (to_double 0.5))) w2)
             else if has_triggerAttack s then
               (case invoke e (TriggerAttack instrument n start) w1 of
                  (Some err, w2) \<Rightarrow> (Some err, w2)
                | (None, w2) \<Rightarrow>
                    invoke e (TriggerRelease instrument (number_add start (to_double 0.5))) w2)
             else
               invoke e (TriggerAttackRelease instrument n (obj_get timeTable instrument) start) w1
         | Inherited p \<Rightarrow> (Some (TypeError ''synth.triggerAttackRelease is not a function''), w1)
         | Missing \<Rightarrow> (Some (TypeError ''Cannot use in operator on undefined''), w1))"

text \<open>\<open>xs.forEach(f)\<close>: a throw in the callback ends the iteration.\<close>

fun forEach :: "('a \<Rightarrow> nat \<Rightarrow> 'w \<Rightarrow> exn option \<times> 'w) \<Rightarrow> 'a list \<Rightarrow> nat \<Rightarrow> 'w \<Rightarrow> exn option \<times> 'w" where
  "forEach f [] i w = (None, w)"
| "forEach f (x # xs) i w =
     (case f x i w of
        (Some err, w') \<Rightarrow> (Some err, w')
      | (None, w') \<Rightarrow> forEach f xs (Suc i) w')"

text \<open>The statements inside \<open>try\<close>.\<close>

definition playInstrument_try ::
  "env \<Rightarrow> string \<Rightarrow> tone_synth lookup \<Rightarrow> string \<Rightarrow> world \<Rightarrow> outcome" where
  "playInstrument_try e instrument synth chord w =
     (let w1 = console_log (''Playing '' @ instrument @ '' notes '' @ chord) w
      in case chordToNotes chord of
           Own notes \<Rightarrow> forEach (playNote e instrument synth) notes 0 w1
         | Inherited p \<Rightarrow> (Some (TypeError ''notes.forEach is not a function''), w1)
         | Missing \<Rightarrow> (Some (TypeError ''Cannot read properties of undefined''), w1))"

definition playInstrument ::
  "env \<Rightarrow> Synths option \<Rightarrow> string \<Rightarrow> string option \<Rightarrow> world \<Rightarrow> outcome" where
  "playInstrument e synths instrument chordOrNote w =
     (case (chordOrNote, synths) of
        (Some (c # cs), Some ss) \<Rightarrow>
          (case obj_get (Synths_props ss) instrument of
             Missing \<Rightarrow> (None, console_error (''Instrument '' @ instrument @ '' not found'') None w)
           | synth \<Rightarrow>
               (case playInstrument_try e instrument synth (c # cs) w of
                  (Some err, w') \<Rightarrow>
                    (None, console_error (''Error in playInstrument for '' @ instrument @ '':'') (Some err) w')
                | (None, w') \<Rightarrow> (None, w')))
      | _ \<Rightarrow> (None, console_error ''Synths not loaded or invalid note'' None w))"

subsection \<open>Socket message handler\<close>

fun string_of_nat :: "nat \<Rightarrow> string" where
  "string_of_nat n =
     (if n < 10 then [char_of (48 + n)]
      else string_of_nat (n div 10) @ [char_of (48 + n mod 10)])"

text \<open>
  \<open>Object.entries\<close>: the own properties of an object, the indexed elements of an array or
  of a string, nothing for a number or a boolean, and a \<open>TypeError\<close> for \<open>null\<close>.
\<close>

fun Object_entries :: "json \<Rightarrow> exn + (string \<times> json) list" where
  "Object_entries JNull = Inl (TypeError ''Cannot convert undefined or null to object'')"
| "Object_entries (JBool b) = Inr []"
| "Object_entries (JNumber x) = Inr []"
| "Object_entries (JString s) =
     Inr (map (\<lambda>(i, c). (string_of_nat i, JString [c])) (enumerate 0 s))"
| "Object_entries (JArray xs) = Inr (map (\<lambda>(i, x). (string_of_nat i, x)) (enumerate 0 xs))"
| "Object_entries (JObject fs) = Inr fs"

text \<open>
  The \<open>map\<close> over the entries, for any dispatcher \<open>play\<close> the handler closes over. The
  dispatcher returns \<open>undefined\<close>, so \<open>filter(Boolean)\<close> leaves an empty array and
  \<open>Promise.all\<close> of it resolves at once: neither has an effect.
\<close>

fun dispatch_entries ::
  "(string \<Rightarrow> string option \<Rightarrow> 'w \<Rightarrow> exn option \<times> 'w) \<Rightarrow> (string \<times> json) list \<Rightarrow> 'w \<Rightarrow> exn option \<times> 'w" where
  "dispatch_entries play [] w = (None, w)"
| "dispatch_entries play ((instrument, chord) # es) w =
     (case chord of
        JString s \<Rightarrow>
          (case play instrument (Some s) w of
             (Some err, w') \<Rightarrow> (Some err, w')
           | (None, w') \<Rightarrow> dispatch_entries play es w')
      | _ \<Rightarrow> dispatch_entries play es w)"

text \<open>
  The handler is an \<open>async\<close> function: an exception it does not catch rejects the promise
  it returns, which nothing in the component handles.
\<close>

definition onMessage ::
  "env \<Rightarrow> (string \<Rightarrow> string option \<Rightarrow> 'w \<Rightarrow> exn option \<times> 'w) \<Rightarrow> string \<Rightarrow> 'w \<Rightarrow> exn option \<times> 'w" where
  "onMessage e play data w =
     (case JSON_parse e data of
        Inl err \<Rightarrow> (Some err, w)
      | Inr bundle \<Rightarrow>
          (case Object_entries bundle of
             Inl err \<Rightarrow> (Some err, w)
           | Inr entries \<Rightarrow> dispatch_entries play entries w))"

text \<open>
  A dispatcher that also writes down each invocation that returned: its instrument and
  its chord argument, in order.
\<close>

definition traced ::
  "(string \<Rightarrow> string option \<Rightarrow> 'w \<Rightarrow> exn option \<times> 'w) \<Rightarrow>
   string \<Rightarrow> string option \<Rightarrow> (string \<times> string option) list \<times> 'w \<Rightarrow>
   exn option \<times> (string \<times> string option) list \<times> 'w" where
  "traced play instrument chord tw =
     (case play instrument chord (snd tw) of
        (err, w') \<Rightarrow> (err, fst tw @ [(instrument, chord)], w'))"

subsection \<open>Audio context controls\<close>

definition handleStartAudio :: "env \<Rightarrow> world \<Rightarrow> world" where
  "handleStartAudio e w =
     (if ctx w \<noteq> ''running'' then
        (let w1 = w\<lparr>calls := calls w @ [Resume]\<rparr>
         in case ctx_resume e (ctx w) of
              Inr st \<Rightarrow> console_log ''Audio context started'' (w1\<lparr>ctx := st\<rparr>)
            | Inl err \<Rightarrow> console_error ''Error starting audio context:'' (Some err) w1)
      else w)"

definition handleStopAudio :: "env \<Rightarrow> world \<Rightarrow> world" where
  "handleStopAudio e w =
     (if ctx w = ''running'' then
        (let w1 = w\<lparr>calls := calls w @ [Close]\<rparr>
         in case ctx_close e (ctx w) of
              Inr st \<Rightarrow> console_log ''Audio context stopped'' (w1\<lparr>ctx := st\<rparr>)
            | Inl err \<Rightarrow> console_error ''Error stopping audio context:'' (Some err) w1)
      else w)"

subsection \<open>Observations on the recorded calls\<close>

text \<open>
  A note trigger event: a call that starts a note, with the synthesizer it is sent to, the
  note name and the attack time.
\<close>

fun attack_of :: "tone_call \<Rightarrow> (string \<times> string \<times> number) option" where
  "attack_of (TriggerAttack i n t) = Some (i, n, t)"
| "attack_of (TriggerAttackRelease i n d t) = Some (i, n, t)"
| "attack_of _ = None"

definition attacks :: "tone_call list \<Rightarrow> (string \<times> string \<times> number) list" where
  "attacks cs = List.map_filter attack_of cs"

text \<open>The note name a call passes to the synthesizer, if it passes one.\<close>

fun call_note :: "tone_call \<Rightarrow> string option" where
  "call_note (TriggerAttack i n t) = Some n"
| "call_note (TriggerReleaseNote i n t) = Some n"
| "call_note (TriggerAttackRelease i n d t) = Some n"
| "call_note _ = None"

subsection \<open>A sample platform\<close>

text \<open>
  Modelled from the spec: the factory functions of \<open>./synthesizers\<close> that build the seven
  synthesizer objects are not among the sources. Each object is given the run-time features
  of the class the \<open>Synths\<close> interface declares for it: every one has \<open>triggerAttack\<close>,
  and only the piano is a sampler. The general theorems below hold for every synth set;
  this one is the concrete input of their instances.
\<close>

definition loadSynths :: Synths where
  "loadSynths =
     \<lparr>kick = \<lparr>instanceof_Sampler = False, has_triggerAttack = True\<rparr>,
      snare = \<lparr>instanceof_Sampler = False, has_triggerAttack = True\<rparr>,
      bass_drum = \<lparr>instanceof_Sampler = False, has_triggerAttack = True\<rparr>,
      hihat = \<lparr>instanceof_Sampler = False, has_triggerAttack = True\<rparr>,
      bass_guitar = \<lparr>instanceof_Sampler = False, has_triggerAttack = True\<rparr>,
      guitar = \<lparr>instanceof_Sampler = False, has_triggerAttack = True\<rparr>,
      piano = \<lparr>instanceof_Sampler = True, has_triggerAttack = True\<rparr>\<rparr>"

text \<open>
  A platform on which no library call throws, the audio clock reads 10 seconds, and
  \<open>JSON.parse\<close> knows two message texts and rejects every other one.
\<close>

definition sample_env :: env where
  \<open>sample_env =
     \<lparr>JSON_parse = (\<lambda>s. if s = ''{"kick":"Cmaj"}''
                         then Inr (JObject [(''kick'', JString ''Cmaj'')])
                         else if s = ''{"piano":"Amin","volume":7,"snare":"C"}''
                         then Inr (JObject [(''piano'', JString ''Amin''), (''volume'', JNumber (Num 7)),
                                            (''snare'', JString ''C'')])
                         else Inl SyntaxError),
      raises = (\<lambda>h c. False),
      clock = (\<lambda>n. Num 10),
      ctx_resume = (\<lambda>s. if s = ''suspended'' then Inr ''running'' else Inl (ContextError s)),
      ctx_close = (\<lambda>s. if s = ''closed'' then Inl (ContextError s) else Inr ''closed'')\<rparr>\<close>

definition world0 :: world where
  "world0 = \<lparr>calls = [], console = [], reads = 0, ctx = ''suspended''\<rparr>"

section \<open>Properties\<close>

subsection \<open>Double-precision arithmetic\<close>

lemma pow2_powi: "pow2 k = 2 powi k"
  by (simp add: pow2_def power_int_def field_simps)

lemma pow2_pos: "0 < pow2 k"
  by (simp add: pow2_powi)

lemma pow2_add: "pow2 (a + b) = pow2 a * pow2 b"
  by (simp add: pow2_powi power_int_add)

lemma pow2_less_iff: "pow2 a < pow2 b \<longleftrightarrow> a < b"
proof
  assume "pow2 a < pow2 b"
  show "a < b"
  proof (rule ccontr)
    assume "\<not> a < b"
    then have "(2::rat) powi b \<le> 2 powi a" by (intro power_int_increasing) auto
    with \<open>pow2 a < pow2 b\<close> show False by (simp add: pow2_powi)
  qed
next
  assume "a < b"
  then have "(2::rat) powi a < 2 powi b" by (intro power_int_strict_increasing) auto
  then show "pow2 a < pow2 b" by (simp add: pow2_powi)
qed

lemma pow2_le_iff: "pow2 a \<le> pow2 b \<longleftrightarrow> a \<le> b"
  using pow2_less_iff [of b a] by (auto simp: not_less [symmetric])

lemma pow2_nat: "0 \<le> k \<Longrightarrow> pow2 k = 2 ^ nat k"
  by (simp add: pow2_def)

lemma pow2_Suc: "pow2 (k + 1) = 2 * pow2 k"
  by (simp add: pow2_powi power_int_add)

lemma pow2_pred: "pow2 (k - 1) = pow2 k / 2"
  using pow2_Suc [of "k - 1"] by simp

lemma rhe_error: "\<bar>of_int (round_half_even y) - y\<bar> \<le> 1 / 2"
proof -
  have "of_int \<lfloor>y\<rfloor> \<le> y" "y < of_int \<lfloor>y\<rfloor> + 1" by linarith+
  then show ?thesis
    by (auto simp: round_half_even_def Let_def abs_le_iff)
qed

lemma ilog2_bounds:
  assumes "0 < x"
  shows "pow2 (ilog2 x) \<le> x \<and> x < pow2 (ilog2 x + 1)"
proof -
  obtain p q where pq: "quotient_of x = (p, q)" by (cases "quotient_of x")
  have q: "0 < q" using pq by (rule quotient_of_denom_pos)
  have x: "x = of_int p / of_int q" using pq by (rule quotient_of_div)
  have p: "0 < p" using assms q x by (simp add: zero_less_divide_iff)
  define bp where "bp = bitlen p"
  define bq where "bq = bitlen q"
  have bp: "1 \<le> bp" "2 ^ nat (bp - 1) \<le> p" "p < 2 ^ nat bp"
    using bitlen_bounds [OF p] p unfolding bp_def by (auto simp: bitlen_alt_def)
  have bq: "1 \<le> bq" "2 ^ nat (bq - 1) \<le> q" "q < 2 ^ nat bq"
    using bitlen_bounds [OF q] q unfolding bq_def by (auto simp: bitlen_alt_def)
  have int_bounds: "pow2 (b - 1) \<le> of_int n \<and> of_int n < pow2 b"
    if "1 \<le> b" "2 ^ nat (b - 1) \<le> n" "n < 2 ^ nat b" for b n :: int
  proof -
    have "(of_int (2 ^ nat (b - 1)) :: rat) \<le> of_int n"
      using that(2) by (simp only: of_int_le_iff)
    moreover have "(of_int n :: rat) < of_int (2 ^ nat b)"
      using that(3) by (simp only: of_int_less_iff)
    ultimately show ?thesis
      using that(1) by (simp add: pow2_nat)
  qed
  have P: "pow2 (bp - 1) \<le> of_int p" "of_int p < pow2 bp"
    using int_bounds [OF bp] by simp_all
  have Q: "pow2 (bq - 1) \<le> of_int q" "of_int q < pow2 bq"
    using int_bounds [OF bq] by simp_all
  have "pow2 (bp - bq - 1) * of_int q \<le> pow2 (bp - bq - 1) * pow2 bq"
    using Q(2) pow2_pos [of "bp - bq - 1"] by (simp add: less_imp_le)
  also have "\<dots> = pow2 (bp - 1)" by (simp flip: pow2_add)
  also have "\<dots> \<le> of_int p" by (rule P(1))
  finally have lo: "pow2 (bp - bq - 1) \<le> x"
    using q by (simp add: x pos_le_divide_eq)
  have "of_int p < pow2 bp" by (rule P(2))
  also have "\<dots> = pow2 (bp - bq + 1) * pow2 (bq - 1)" by (simp flip: pow2_add)
  also have "\<dots> \<le> pow2 (bp - bq + 1) * of_int q"
    using Q(1) pow2_pos [of "bp - bq + 1"] by simp
  finally have hi: "x < pow2 (bp - bq + 1)"
    using q by (simp add: x pos_divide_less_eq)
  show ?thesis
    using lo hi pq by (auto simp: ilog2_def Let_def bp_def bq_def)
qed

lemma ilog2_unique:
  assumes "pow2 e \<le> x" "x < pow2 (e + 1)"
  shows "ilog2 x = e"
proof -
  have "0 < x" using assms(1) pow2_pos [of e] by simp
  note b = ilog2_bounds [OF this]
  have "pow2 (ilog2 x) < pow2 (e + 1)" using b assms by simp
  moreover have "pow2 e < pow2 (ilog2 x + 1)" using b assms by simp
  ultimately show ?thesis by (simp add: pow2_less_iff)
qed

lemma ilog2_le:
  assumes "0 < x" "x < pow2 (E + 1)"
  shows "ilog2 x \<le> E"
proof -
  have "pow2 (ilog2 x) < pow2 (E + 1)"
    using ilog2_bounds [OF assms(1)] assms(2) by simp
  then show ?thesis by (simp add: pow2_less_iff)
qed

text \<open>Rounding on a grid of spacing \<open>pow2 q\<close> moves a value by half the spacing at most.\<close>

lemma grid_error:
  "\<bar>of_int (round_half_even (x / pow2 q)) * pow2 q - x\<bar> \<le> pow2 (q - 1)"
proof -
  have "\<bar>of_int (round_half_even (x / pow2 q)) * pow2 q - x\<bar> =
        \<bar>of_int (round_half_even (x / pow2 q)) - x / pow2 q\<bar> * pow2 q"
    using pow2_pos [of q] by (simp add: abs_mult [symmetric] field_simps abs_of_pos)
  also have "\<dots> \<le> (1 / 2) * pow2 q"
    using rhe_error [of "x / pow2 q"] pow2_pos [of q] by (intro mult_right_mono) auto
  finally show ?thesis by (simp add: pow2_pred)
qed

lemma to_double_close:
  assumes "\<bar>x\<bar> < pow2 (E + 1)" "- 1022 \<le> E" "E \<le> 1022"
  shows "\<exists>r. to_double x = Num r \<and> \<bar>r - x\<bar> \<le> pow2 (E - 53)"
proof (cases "x = 0")
  case True
  then show ?thesis using pow2_pos [of "E - 53"] by (simp add: to_double_def less_imp_le)
next
  case False
  define q where "q = max (ilog2 \<bar>x\<bar> - 52) (- 1074)"
  define r where "r = of_int (round_half_even (x / pow2 q)) * pow2 q"
  have "ilog2 \<bar>x\<bar> \<le> E" using False assms(1) by (intro ilog2_le) auto
  then have q: "q - 1 \<le> E - 53" using assms(2) by (simp add: q_def)
  have "\<bar>r - x\<bar> \<le> pow2 (q - 1)" unfolding r_def by (rule grid_error)
  also have "\<dots> \<le> pow2 (E - 53)" using q by (simp add: pow2_le_iff)
  finally have err: "\<bar>r - x\<bar> \<le> pow2 (E - 53)" .
  have "pow2 (E - 53) \<le> pow2 (E + 1)" by (simp add: pow2_le_iff)
  then have "\<bar>r\<bar> < pow2 (E + 1) + pow2 (E + 1)" using err assms(1) by linarith
  also have "\<dots> = pow2 (E + 2)" using pow2_Suc [of "E + 1"] by (simp add: add.commute)
  also have "\<dots> \<le> pow2 1024" using assms(3) by (simp add: pow2_le_iff)
  finally have "\<bar>r\<bar> < pow2 1024" .
  then have "to_double x = Num r"
    using False by (simp add: to_double_def Let_def q_def [symmetric] r_def [symmetric] abs_less_iff not_le)
  with err show ?thesis by simp
qed

lemma to_double_normal:
  assumes "pow2 e \<le> \<bar>x\<bar>" "\<bar>x\<bar> < pow2 (e + 1)" "- 1022 \<le> e" "e \<le> 1022"
  shows "to_double x = Num (of_int (round_half_even (x / pow2 (e - 52))) * pow2 (e - 52))"
proof -
  have e: "ilog2 \<bar>x\<bar> = e" using assms(1,2) by (rule ilog2_unique)
  have x: "x \<noteq> 0" using assms(1) pow2_pos [of e] by auto
  obtain r where r: "to_double x = Num r"
    using to_double_close [OF assms(2,3,4)] by blast
  have q: "max (e - 52) (- 1074) = e - 52" using assms(3) by simp
  show ?thesis
    using r x by (simp add: to_double_def Let_def e q split: if_splits)
qed

lemma rhe_near:
  assumes "\<bar>y - of_int m\<bar> < 1 / 2"
  shows "round_half_even y = m"
proof (cases "of_int m \<le> y")
  case True
  then have "\<lfloor>y\<rfloor> = m" using assms by (intro floor_unique) (auto simp: abs_less_iff)
  then show ?thesis
    using assms True by (simp add: round_half_even_def Let_def abs_less_iff)
next
  case False
  then have "\<lfloor>y\<rfloor> = m - 1" using assms by (intro floor_unique) (auto simp: abs_less_iff)
  then show ?thesis
    using assms False by (simp add: round_half_even_def Let_def abs_less_iff)
qed

lemma to_double_eqI:
  assumes "pow2 e \<le> \<bar>x\<bar>" "\<bar>x\<bar> < pow2 (e + 1)" "- 1022 \<le> e" "e \<le> 1022"
      and "\<bar>x / pow2 (e - 52) - of_int m\<bar> < 1 / 2"
  shows "to_double x = Num (of_int m * pow2 (e - 52))"
  using to_double_normal [OF assms(1-4)] rhe_near [OF assms(5)] by simp

text \<open>The two literals of the start time, and the start times at a clock reading of 10.\<close>

lemma to_double_0_2: "to_double (1 / 5) = Num (3602879701896397 / 18014398509481984)"
  using to_double_eqI [of "- 3" "0.2" 7205759403792794]
  by (simp add: pow2_def)

lemma to_double_0_1: "to_double (1 / 10) = Num (3602879701896397 / 36028797018963968)"
  using to_double_eqI [of "- 4" "0.1" 7205759403792794]
  by (simp add: pow2_def)

lemma startTime_10_0: "startTime (Num 10) 0 = Num (5685794529555251 / 562949953421312)"
proof -
  have a: "to_double 10 = Num 10"
    using to_double_eqI [of 3 10 5629499534213120] by (simp add: pow2_def)
  have b: "to_double (10 + 3602879701896397 / 36028797018963968) = Num (5685794529555251 / 562949953421312)"
    using to_double_eqI [of 3 "10 + 3602879701896397 / 36028797018963968" 5685794529555251]
    by (simp add: pow2_def)
  show ?thesis
    using b by (simp add: startTime_def to_double_0_2 to_double_0_1 to_double_def [of 0] a)
qed

lemma startTime_10_1: "startTime (Num 10) 1 = Num (5798384520239513 / 562949953421312)"
proof -
  have p: "to_double (3602879701896397 / 18014398509481984) = Num (3602879701896397 / 18014398509481984)"
    using to_double_eqI [of "- 3" "3602879701896397 / 18014398509481984" 7205759403792794]
    by (simp add: pow2_def)
  have a: "to_double (10 + 3602879701896397 / 18014398509481984) = Num (2871044762448691 / 281474976710656)"
    using to_double_eqI [of 3 "10 + 3602879701896397 / 18014398509481984" 5742089524897382]
    by (simp add: pow2_def)
  have b: "to_double (2871044762448691 / 281474976710656 + 3602879701896397 / 36028797018963968) =
      Num (5798384520239513 / 562949953421312)"
    using to_double_eqI [of 3 "2871044762448691 / 281474976710656 + 3602879701896397 / 36028797018963968" 5798384520239513]
    by (simp add: pow2_def)
  show ?thesis
    using a b by (simp add: startTime_def to_double_0_2 to_double_0_1 p)
qed

lemma startTime_10_2: "startTime (Num 10) 2 = Num (21 / 2)"
proof -
  have p: "to_double (2 * (3602879701896397 / 18014398509481984)) = Num (3602879701896397 / 9007199254740992)"
    using to_double_eqI [of "- 2" "2 * (3602879701896397 / 18014398509481984)" 7205759403792794]
    by (simp add: pow2_def)
  have a: "to_double (10 + 3602879701896397 / 9007199254740992) = Num (5854679515581645 / 562949953421312)"
    using to_double_eqI [of 3 "10 + 3602879701896397 / 9007199254740992" 5854679515581645]
    by (simp add: pow2_def)
  have b: "to_double (5854679515581645 / 562949953421312 + 3602879701896397 / 36028797018963968) =
      Num (21 / 2)"
    using to_double_eqI [of 3 "5854679515581645 / 562949953421312 + 3602879701896397 / 36028797018963968" 5910974510923776]
    by (simp add: pow2_def)
  show ?thesis
    using p a b by (simp add: startTime_def to_double_0_2 to_double_0_1)
qed

lemma startTime_close:
  assumes "0 \<le> t" "t \<le> 2 ^ 32" "index \<le> 4"
  shows "\<exists>s. startTime (Num t) index = Num s \<and> \<bar>s - (t + of_nat index * 0.2 + 0.1)\<bar> \<le> 1 / 2 ^ 19"
proof -
  define p where "p = of_nat index * (3602879701896397 / 18014398509481984 :: rat)"
  define c where "c = (3602879701896397 / 36028797018963968 :: rat)"
  have i: "(of_nat index :: rat) \<le> 4" "(0::rat) \<le> of_nat index"
    using assms(3) by (simp_all add: of_nat_le_iff [of index 4, where 'a = rat, simplified])
  have p: "0 \<le> p" "p < 1" "p \<le> of_nat index * 0.2 + 1 / 2 ^ 54" "of_nat index * 0.2 \<le> p + 1 / 2 ^ 54"
    using i unfolding p_def by auto
  obtain p' where p': "to_double p = Num p'" and "\<bar>p' - p\<bar> \<le> pow2 (- 1 - 53)"
    using to_double_close [of p "- 1"] p by (auto simp: pow2_def)
  then have p'b: "p' \<le> p + 1 / 2 ^ 54" "p \<le> p' + 1 / 2 ^ 54"
    unfolding abs_le_iff by (simp_all add: pow2_def)
  have "\<bar>t + p'\<bar> < pow2 (32 + 1)"
    unfolding abs_less_iff using p'b p assms by (simp add: pow2_def)
  then obtain s1 where s1: "to_double (t + p') = Num s1" and "\<bar>s1 - (t + p')\<bar> \<le> pow2 (32 - 53)"
    using to_double_close [of "t + p'" 32] by auto
  then have s1b: "s1 \<le> t + p' + 1 / 2 ^ 21" "t + p' \<le> s1 + 1 / 2 ^ 21"
    unfolding abs_le_iff by (simp_all add: pow2_def)
  have "\<bar>s1 + c\<bar> < pow2 (32 + 1)"
    unfolding abs_less_iff using s1b p'b p assms by (simp add: pow2_def c_def)
  then obtain s where s: "to_double (s1 + c) = Num s" and "\<bar>s - (s1 + c)\<bar> \<le> pow2 (32 - 53)"
    using to_double_close [of "s1 + c" 32] by auto
  then have sb: "s \<le> s1 + c + 1 / 2 ^ 21" "s1 + c \<le> s + 1 / 2 ^ 21"
    unfolding abs_le_iff by (simp_all add: pow2_def)
  have "startTime (Num t) index = Num s"
    using p' s1 s by (simp add: startTime_def to_double_0_2 to_double_0_1 p_def c_def)
  moreover have "\<bar>s - (t + of_nat index * 0.2 + 0.1)\<bar> \<le> 1 / 2 ^ 19"
    unfolding abs_le_iff using p p'b s1b sb by (simp add: c_def)
  ultimately show ?thesis by blast
qed

subsection \<open>Supporting lemmas\<close>

lemma chordMap_distinct: "distinct (map fst chordMap)"
  by (simp add: chordMap_def)

lemma chordMap_length: "list_all (\<lambda>(k, ns). length ns = 3) chordMap"
  by (simp add: chordMap_def)

text \<open>
  On its own keys the resolver returns the three notes of the table, in the table's order.
\<close>

lemma chordToNotes_table:
  assumes "(k, ns) \<in> set chordMap"
  shows "chordToNotes k = Own ns \<and> length ns = 3"
proof -
  have "map_of chordMap k = Some ns"
    using assms chordMap_distinct by simp
  moreover have "length ns = 3"
    using assms chordMap_length by (auto simp: list_all_iff)
  ultimately show ?thesis
    by (simp add: chordToNotes_def obj_get_def)
qed

lemma chordToNotes_unknown:
  "k \<notin> set (map fst chordMap) \<Longrightarrow>
   chordToNotes k = (if k \<in> set Object_prototype_keys then Inherited k else Own [])"
  by (simp add: chordToNotes_def obj_get_def map_of_eq_None_iff [THEN iffD2])

lemma chordToNotes_Cmaj: "chordToNotes ''Cmaj'' = Own [''C'', ''E'', ''G'']"
  by (simp add: chordToNotes_def obj_get_def chordMap_def)

lemma Synths_get_kick: "obj_get (Synths_props ss) ''kick'' = Own (kick ss)"
  by (simp add: obj_get_def Synths_props_def)

lemma Synths_get_not_key:
  assumes "instrument \<notin> set (map fst (Synths_props ss))"
  shows "obj_get (Synths_props ss) instrument = Missing
       \<or> obj_get (Synths_props ss) instrument = Inherited instrument"
proof -
  have "map_of (Synths_props ss) instrument = None"
    using assms by (simp add: map_of_eq_None_iff)
  then show ?thesis by (simp add: obj_get_def)
qed

lemma playNote_Inherited:
  "playNote e instrument (Inherited p) note index w =
     (Some (TypeError ''synth.triggerAttackRelease is not a function''), w\<lparr>reads := Suc (reads w)\<rparr>)"
  by (simp add: playNote_def Tone_now_def)

text \<open>What every iteration leaves alone, the whole loop leaves alone.\<close>

lemma forEach_preserves:
  assumes "\<And>x i w. g (snd (f x i w)) = g w"
  shows "g (snd (forEach f xs i w)) = g w"
proof (induction xs arbitrary: i w)
  case Nil
  show ?case by simp
next
  case (Cons x xs)
  obtain r w' where step: "f x i w = (r, w')" by (cases "f x i w")
  have "g w' = g w" using assms [of x i w] step by simp
  then show ?case using step Cons.IH [of "Suc i" w'] by (cases r) simp_all
qed

lemma playInstrument_try_Inherited_calls:
  "calls (snd (playInstrument_try e instrument (Inherited p) chord w)) = calls w"
proof -
  have "\<And>x i w. calls (snd (playNote e instrument (Inherited p) x i w)) = calls w"
    by (simp add: playNote_Inherited)
  then have "\<And>ns i w. calls (snd (forEach (playNote e instrument (Inherited p)) ns i w)) = calls w"
    by (rule forEach_preserves)
  then show ?thesis
    by (simp add: playInstrument_try_def console_log_def Let_def split: lookup.splits)
qed

lemma playInstrument_try_Inherited_console:
  "console (snd (playInstrument_try e instrument (Inherited p) chord w)) =
     console w @ [ConsoleLog (''Playing '' @ instrument @ '' notes '' @ chord)]"
proof -
  have "\<And>x i w. console (snd (playNote e instrument (Inherited p) x i w)) = console w"
    by (simp add: playNote_Inherited)
  then have "\<And>ns i w. console (snd (forEach (playNote e instrument (Inherited p)) ns i w)) = console w"
    by (rule forEach_preserves)
  then show ?thesis
    by (simp add: playInstrument_try_def console_log_def Let_def split: lookup.splits)
qed

lemma playInstrument_try_no_notes_calls:
  assumes "chord \<notin> set (map fst chordMap)"
  shows "calls (snd (playInstrument_try e instrument synth chord w)) = calls w"
  using chordToNotes_unknown [OF assms]
  by (simp add: playInstrument_try_def console_log_def Let_def)

lemma playInstrument_returns:
  "fst (playInstrument e synths instrument chordOrNote w) = None"
  by (simp add: playInstrument_def split: option.splits list.splits lookup.splits prod.splits)

lemma playInstrument_calls:
  "calls (snd (playInstrument e synths instrument chordOrNote w)) =
     (case (chordOrNote, synths) of
        (Some (c # cs), Some ss) \<Rightarrow>
          (case obj_get (Synths_props ss) instrument of
             Missing \<Rightarrow> calls w
           | synth \<Rightarrow> calls (snd (playInstrument_try e instrument synth (c # cs) w)))
      | _ \<Rightarrow> calls w)"
  by (simp add: playInstrument_def console_error_def
           split: option.splits list.splits lookup.splits prod.splits)

lemma playInstrument_console:
  "length (console (snd (playInstrument e synths instrument chordOrNote w))) =
     (case (chordOrNote, synths) of
        (Some (c # cs), Some ss) \<Rightarrow>
          (case obj_get (Synths_props ss) instrument of
             Missing \<Rightarrow> Suc (length (console w))
           | synth \<Rightarrow>
               (case playInstrument_try e instrument synth (c # cs) w of
                  (Some err, w') \<Rightarrow> Suc (length (console w'))
                | (None, w') \<Rightarrow> length (console w')))
      | _ \<Rightarrow> Suc (length (console w)))"
  by (simp add: playInstrument_def console_error_def
           split: option.splits list.splits lookup.splits prod.splits)

lemma attacks_append: "attacks (xs @ ys) = attacks xs @ attacks ys"
  by (simp add: attacks_def List.map_filter_def)

lemma playNote_quiet:
  assumes "\<forall>h c. \<not> raises e h c"
  shows "\<exists>w'. playNote e instrument (Own s) note index w = (None, w')
             \<and> reads w' = Suc (reads w)
             \<and> attacks (calls w') =
                 attacks (calls w) @
                   [(instrument, noteWithOctave note, startTime (clock e (reads w)) index)]"
  using assms
  by (simp add: playNote_def invoke_def Tone_now_def Let_def attacks_def List.map_filter_def)

lemma playInstrument_kick_Cmaj:
  assumes quiet: "\<forall>h c. \<not> raises e h c"
  shows "\<exists>w'. playInstrument e (Some ss) ''kick'' (Some ''Cmaj'') w = (None, w')
           \<and> attacks (calls w') =
               attacks (calls w) @
                 [(''kick'', ''C4'', startTime (clock e (reads w)) 0),
                  (''kick'', ''E4'', startTime (clock e (reads w + 1)) 1),
                  (''kick'', ''G4'', startTime (clock e (reads w + 2)) 2)]"
proof -
  define w0 where "w0 = console_log (''Playing '' @ ''kick'' @ '' notes '' @ ''Cmaj'') w"
  have w0: "reads w0 = reads w" "calls w0 = calls w"
    by (simp_all add: w0_def console_log_def)
  obtain w1 where s1: "playNote e ''kick'' (Own (kick ss)) ''C'' 0 w0 = (None, w1)"
      and r1: "reads w1 = Suc (reads w0)"
      and a1: "attacks (calls w1) = attacks (calls w0) @
                 [(''kick'', noteWithOctave ''C'', startTime (clock e (reads w0)) 0)]"
    using playNote_quiet [OF quiet, of "''kick''" "kick ss" "''C''" 0 w0] by blast
  obtain w2 where s2: "playNote e ''kick'' (Own (kick ss)) ''E'' 1 w1 = (None, w2)"
      and r2: "reads w2 = Suc (reads w1)"
      and a2: "attacks (calls w2) = attacks (calls w1) @
                 [(''kick'', noteWithOctave ''E'', startTime (clock e (reads w1)) 1)]"
    using playNote_quiet [OF quiet, of "''kick''" "kick ss" "''E''" 1 w1] by blast
  obtain w3 where s3: "playNote e ''kick'' (Own (kick ss)) ''G'' 2 w2 = (None, w3)"
      and a3: "attacks (calls w3) = attacks (calls w2) @
                 [(''kick'', noteWithOctave ''G'', startTime (clock e (reads w2)) 2)]"
    using playNote_quiet [OF quiet, of "''kick''" "kick ss" "''G''" 2 w2] by blast
  have loop: "forEach (playNote e ''kick'' (Own (kick ss))) [''C'', ''E'', ''G''] 0 w0 = (None, w3)"
    using s1 s2 s3 by (simp add: numeral_2_eq_2)
  have run: "playInstrument e (Some ss) ''kick'' (Some ''Cmaj'') w = (None, w3)"
    using loop
    by (simp add: playInstrument_def Synths_get_kick playInstrument_try_def chordToNotes_Cmaj
                  w0_def Let_def)
  have "attacks (calls w3) =
          attacks (calls w) @
            [(''kick'', ''C4'', startTime (clock e (reads w)) 0),
             (''kick'', ''E4'', startTime (clock e (reads w + 1)) 1),
             (''kick'', ''G4'', startTime (clock e (reads w + 2)) 2)]"
    using a1 a2 a3 r1 r2 w0 by (simp add: noteWithOctave_def)
  with run show ?thesis by simp
qed

lemma startTime_at_10:
  "startTime (Num 10) 0 = Num (5685794529555251 / 562949953421312)"
  "startTime (Num 10) (Suc 0) = Num (5798384520239513 / 562949953421312)"
  "startTime (Num 10) 2 = Num (21 / 2)"
  using startTime_10_0 startTime_10_1 startTime_10_2 by simp_all

lemma sample_kick_Cmaj_attacks:
  \<open>attacks (calls (snd (onMessage sample_env (playInstrument sample_env (Some loadSynths))
       ''{"kick":"Cmaj"}'' world0))) =
     [(''kick'', ''C4'', Num (5685794529555251 / 562949953421312)),
      (''kick'', ''E4'', Num (5798384520239513 / 562949953421312)),
      (''kick'', ''G4'', Num (21 / 2))]\<close>
proof -
  have quiet: "\<forall>h c. \<not> raises sample_env h c"
    by (simp add: sample_env_def)
  obtain w' where run: "playInstrument sample_env (Some loadSynths) ''kick'' (Some ''Cmaj'') world0 = (None, w')"
      and att: "attacks (calls w') =
               attacks (calls world0) @
                 [(''kick'', ''C4'', startTime (clock sample_env (reads world0)) 0),
                  (''kick'', ''E4'', startTime (clock sample_env (reads world0 + 1)) 1),
                  (''kick'', ''G4'', startTime (clock sample_env (reads world0 + 2)) 2)]"
    using playInstrument_kick_Cmaj [OF quiet, of loadSynths world0] by blast
  have \<open>onMessage sample_env (playInstrument sample_env (Some loadSynths)) ''{"kick":"Cmaj"}'' world0 =
      (None, w')\<close>
    using run by (simp add: onMessage_def sample_env_def)
  moreover have "clock sample_env = (\<lambda>n. Num 10)" by (simp add: sample_env_def)
  ultimately show ?thesis
    using att by (simp add: world0_def attacks_def startTime_at_10)
qed

text \<open>
  With the dispatcher that writes its invocations down, the entries are gone through once,
  in order, and exactly the string-valued ones reach the dispatcher.
\<close>

lemma dispatch_entries_traced:
  "\<exists>w'. dispatch_entries (traced (playInstrument e synths)) fs (tr, w) =
          (None, tr @ [(k, Some s). (k, JString s) \<leftarrow> fs], w')"
proof (induction fs arbitrary: tr w)
  case Nil
  show ?case by simp
next
  case (Cons f fs)
  obtain k v where f: "f = (k, v)" by (cases f)
  show ?case
  proof (cases v)
    case (JString s)
    obtain w1 where "playInstrument e synths k (Some s) w = (None, w1)"
      using playInstrument_returns [of e synths k "Some s" w]
      by (cases "playInstrument e synths k (Some s) w") simp
    then show ?thesis
      using Cons.IH [of "tr @ [(k, Some s)]" w1] f JString by (simp add: traced_def)
  qed (use Cons.IH [of tr w] f in simp_all)
qed

subsection \<open>Chord resolver\<close>

text \<open>
  C1. For every chord name that is a key of the chord table the resolver returns the three
  notes of the table in order (lemma \<open>chordToNotes_table\<close>), and for every other string it
  is meant to return the empty list. The second half fails on the names an object literal
  inherits: \<open>constructor\<close> is not a key of the table, and the lookup
  \<open>chordMap[chord] || []\<close> returns the inherited member, which is no list of notes at all.
\<close>

theorem chordToNotes_inherited_key:
  "''constructor'' \<notin> set (map fst chordMap)
 \<and> chordToNotes ''constructor'' = Inherited ''constructor''
 \<and> chordToNotes ''constructor'' \<noteq> Own []"
  by (simp add: chordToNotes_def obj_get_def chordMap_def Object_prototype_keys_def)

subsection \<open>Playback dispatcher\<close>

text \<open>
  C3. For an instrument name that is not a key of the loaded synth set, the dispatcher
  makes no call on any synthesizer, throws nothing, and writes to the console before it
  returns. This covers both the name that is absent altogether and the name inherited from
  \<open>Object.prototype\<close>, for which the attempted trigger fails inside \<open>try\<close>.
\<close>

theorem playInstrument_unknown_instrument:
  assumes "instrument \<notin> set (map fst (Synths_props ss))"
  shows "fst (playInstrument e (Some ss) instrument chordOrNote w) = None
       \<and> calls (snd (playInstrument e (Some ss) instrument chordOrNote w)) = calls w
       \<and> length (console w) < length (console (snd (playInstrument e (Some ss) instrument chordOrNote w)))"
proof -
  note not_own = Synths_get_not_key [OF assms]
  have quiet: "calls (snd (playInstrument e (Some ss) instrument chordOrNote w)) = calls w"
    using not_own
    by (auto simp: playInstrument_calls playInstrument_try_Inherited_calls
             split: option.splits list.splits)
  have "\<And>chord r w'. playInstrument_try e instrument (Inherited instrument) chord w = (r, w')
      \<Longrightarrow> length (console w) < length (console w')"
    using playInstrument_try_Inherited_console [of e instrument instrument _ w]
    by (metis length_append_singleton lessI snd_conv)
  then have "length (console w) < length (console (snd (playInstrument e (Some ss) instrument chordOrNote w)))"
    using not_own
    by (auto simp: playInstrument_console less_Suc_eq split: option.splits list.splits prod.splits)
  with quiet show ?thesis by (simp add: playInstrument_returns)
qed

theorem playInstrument_unknown_instrument_witness:
  "playInstrument sample_env (Some loadSynths) ''constructor'' (Some ''Cmaj'') world0 =
     (None, \<lparr>calls = [],
             console = [ConsoleLog ''Playing constructor notes Cmaj'',
                        ConsoleError ''Error in playInstrument for constructor:''
                          (Some (TypeError ''synth.triggerAttackRelease is not a function''))],
             reads = 1, ctx = ''suspended''\<rparr>)
   \<and> calls (snd (playInstrument sample_env (Some loadSynths) ''drums'' (Some ''Cmaj'') world0)) = []"
proof -
  have k1: "''constructor'' \<notin> set (map fst (Synths_props loadSynths))"
    by (simp add: Synths_props_def)
  have k2: "''drums'' \<notin> set (map fst (Synths_props loadSynths))"
    by (simp add: Synths_props_def)
  have get: "obj_get (Synths_props loadSynths) ''constructor'' = Inherited ''constructor''"
    by (simp add: obj_get_def Synths_props_def Object_prototype_keys_def)
  have run: "playInstrument sample_env (Some loadSynths) ''constructor'' (Some ''Cmaj'') world0 =
     (None, \<lparr>calls = [],
             console = [ConsoleLog ''Playing constructor notes Cmaj'',
                        ConsoleError ''Error in playInstrument for constructor:''
                          (Some (TypeError ''synth.triggerAttackRelease is not a function''))],
             reads = 1, ctx = ''suspended''\<rparr>)"
    by (simp add: playInstrument_def get playInstrument_try_def chordToNotes_Cmaj playNote_Inherited
                  console_log_def console_error_def world0_def Let_def)
  show ?thesis
    using playInstrument_unknown_instrument [OF k1, of sample_env "Some ''Cmaj''" world0]
          playInstrument_unknown_instrument [OF k2, of sample_env "Some ''Cmaj''" world0] run
    by (simp add: world0_def)
qed

text \<open>
  C4. For every instrument name, the dispatcher called with an undefined chord or note
  makes no call on any synthesizer.
\<close>

theorem playInstrument_undefined_chord:
  "calls (snd (playInstrument e synths instrument None w)) = calls w"
  by (simp add: playInstrument_def console_error_def)

theorem playInstrument_undefined_chord_witness:
  "calls (snd (playInstrument sample_env (Some loadSynths) ''kick'' None world0)) = []"
  using playInstrument_undefined_chord [of sample_env "Some loadSynths" "''kick''" world0]
  by (simp add: world0_def)

text \<open>
  C5. A note name of one character gets the default octave appended (\<open>C\<close> becomes \<open>C4\<close>), a
  longer one is passed on unchanged (\<open>C#\<close> stays \<open>C#\<close>), and the normalised name is the
  only note name the callback hands to a synthesizer: it does so in the first call it
  makes, before any trigger can fail.
\<close>

theorem noteWithOctave_normalizes:
  "(length note = 1 \<longrightarrow> noteWithOctave note = note @ ''4'')
 \<and> (1 < length note \<longrightarrow> noteWithOctave note = note)
 \<and> (\<exists>cs. calls (snd (playNote e instrument (Own s) note index w)) = calls w @ cs
         \<and> set (List.map_filter call_note cs) = {noteWithOctave note})"
  by (simp add: noteWithOctave_def playNote_def invoke_def Tone_now_def Let_def List.map_filter_simps)

theorem noteWithOctave_normalizes_witness:
  "noteWithOctave ''C'' = ''C4'' \<and> noteWithOctave ''C#'' = ''C#''"
  using noteWithOctave_normalizes [of "''C''" sample_env "''kick''" "kick loadSynths" 0 world0]
        noteWithOctave_normalizes [of "''C#''" sample_env "''kick''" "kick loadSynths" 0 world0]
  by simp

text \<open>
  C9. For every instrument name and every chord or note value the dispatcher returns
  normally, whatever the library calls do; and an error thrown inside \<open>try\<close>, by the note
  resolution or by a trigger, ends up in the console and nowhere else.
\<close>

theorem playInstrument_never_throws:
  "fst (playInstrument e synths instrument chordOrNote w) = None
 \<and> (playInstrument_try e instrument (obj_get (Synths_props ss) instrument) (c # cs) w = (Some err, w1)
      \<longrightarrow> obj_get (Synths_props ss) instrument \<noteq> Missing
      \<longrightarrow> playInstrument e (Some ss) instrument (Some (c # cs)) w =
            (None, console_error (''Error in playInstrument for '' @ instrument @ '':'') (Some err) w1))"
proof (intro conjI impI)
  show "fst (playInstrument e synths instrument chordOrNote w) = None"
    by (rule playInstrument_returns)
next
  assume "playInstrument_try e instrument (obj_get (Synths_props ss) instrument) (c # cs) w = (Some err, w1)"
     and "obj_get (Synths_props ss) instrument \<noteq> Missing"
  then show "playInstrument e (Some ss) instrument (Some (c # cs)) w =
      (None, console_error (''Error in playInstrument for '' @ instrument @ '':'') (Some err) w1)"
    by (cases "obj_get (Synths_props ss) instrument") (simp_all add: playInstrument_def)
qed

theorem playInstrument_never_throws_witness:
  "playInstrument sample_env (Some loadSynths) ''kick'' (Some ''toString'') world0 =
     (None, \<lparr>calls = [],
             console = [ConsoleLog ''Playing kick notes toString'',
                        ConsoleError ''Error in playInstrument for kick:''
                          (Some (TypeError ''notes.forEach is not a function''))],
             reads = 0, ctx = ''suspended''\<rparr>)"
proof -
  have get: "obj_get (Synths_props loadSynths) ''kick'' = Own (kick loadSynths)"
    by (rule Synths_get_kick)
  have resolved: "chordToNotes ''toString'' = Inherited ''toString''"
    by (simp add: chordToNotes_def obj_get_def chordMap_def Object_prototype_keys_def)
  have body: "playInstrument_try sample_env ''kick'' (obj_get (Synths_props loadSynths) ''kick'')
        ''toString'' world0 =
      (Some (TypeError ''notes.forEach is not a function''),
       console_log ''Playing kick notes toString'' world0)"
    by (simp add: playInstrument_try_def resolved get Let_def)
  show ?thesis
    using playInstrument_never_throws
            [of sample_env "Some loadSynths" "''kick''" "Some ''toString''" world0 loadSynths
                "CHR ''t''" "''oString''" "TypeError ''notes.forEach is not a function''"
                "console_log ''Playing kick notes toString'' world0"] body get
    by (simp add: console_log_def console_error_def world0_def)
qed

text \<open>
  C10. For every chord or note string that is not a key of the chord table, bare note
  names such as \<open>C\<close> and \<open>C#\<close> among them, the dispatcher makes no call on any
  synthesizer, whatever the instrument and the synth set: only the chords of the table
  are ever played.
\<close>

theorem playInstrument_unlisted_chord_silent:
  assumes "chord \<notin> set (map fst chordMap)"
  shows "calls (snd (playInstrument e synths instrument (Some chord) w)) = calls w"
  using assms
  by (auto simp: playInstrument_calls playInstrument_try_no_notes_calls
           split: option.splits list.splits lookup.splits)

theorem playInstrument_unlisted_chord_silent_witness:
  "calls (snd (playInstrument sample_env (Some loadSynths) ''kick'' (Some ''C'') world0)) = []
 \<and> calls (snd (playInstrument sample_env (Some loadSynths) ''piano'' (Some ''C#'') world0)) = []"
proof -
  have k1: "''C'' \<notin> set (map fst chordMap)" by (simp add: chordMap_def)
  have k2: "''C#'' \<notin> set (map fst chordMap)" by (simp add: chordMap_def)
  show ?thesis
    using playInstrument_unlisted_chord_silent [OF k1, of sample_env "Some loadSynths" "''kick''" world0]
          playInstrument_unlisted_chord_silent [OF k2, of sample_env "Some loadSynths" "''piano''" world0]
    by (simp add: world0_def)
qed

subsection \<open>Socket message handler\<close>

text \<open>
  C2. With the synth set loaded, handling the message \<open>{"kick":"Cmaj"}\<close> starts exactly
  three notes, all on the kick synthesizer: C4, E4 and G4 in this order. The attack time of
  the note at index \<open>i\<close> is the double-precision value of \<open>Tone.now() + i * 0.2 + 0.1\<close>,
  with the clock read anew for that note; for a clock reading between 0 and \<open>2^32\<close>
  seconds it lies within \<open>2^-19\<close> seconds of the reading plus 0.1, 0.3 and 0.5. The
  message text is taken to parse to the object with the single member \<open>kick\<close>, and the
  library calls to return normally.
\<close>

theorem onMessage_kick_Cmaj:
  assumes parse: \<open>JSON_parse e ''{"kick":"Cmaj"}'' = Inr (JObject [(''kick'', JString ''Cmaj'')])\<close>
      and quiet: "\<forall>h c. \<not> raises e h c"
  shows \<open>fst (onMessage e (playInstrument e (Some ss)) ''{"kick":"Cmaj"}'' w) = None
       \<and> attacks (calls (snd (onMessage e (playInstrument e (Some ss)) ''{"kick":"Cmaj"}'' w))) =
           attacks (calls w) @
             [(''kick'', ''C4'', startTime (clock e (reads w)) 0),
              (''kick'', ''E4'', startTime (clock e (reads w + 1)) 1),
              (''kick'', ''G4'', startTime (clock e (reads w + 2)) 2)]
       \<and> (0 \<le> t \<longrightarrow> t \<le> 2 ^ 32 \<longrightarrow> index \<le> 2 \<longrightarrow>
            (\<exists>s. startTime (Num t) index = Num s
                \<and> \<bar>s - (t + of_nat index * 0.2 + 0.1)\<bar> \<le> 1 / 2 ^ 19))\<close>
proof -
  obtain w' where run: "playInstrument e (Some ss) ''kick'' (Some ''Cmaj'') w = (None, w')"
      and att: "attacks (calls w') =
               attacks (calls w) @
                 [(''kick'', ''C4'', startTime (clock e (reads w)) 0),
                  (''kick'', ''E4'', startTime (clock e (reads w + 1)) 1),
                  (''kick'', ''G4'', startTime (clock e (reads w + 2)) 2)]"
    using playInstrument_kick_Cmaj [OF quiet, of ss w] by blast
  have \<open>onMessage e (playInstrument e (Some ss)) ''{"kick":"Cmaj"}'' w = (None, w')\<close>
    using parse run by (simp add: onMessage_def)
  moreover have "\<exists>s. startTime (Num t) index = Num s
        \<and> \<bar>s - (t + of_nat index * 0.2 + 0.1)\<bar> \<le> 1 / 2 ^ 19"
    if "0 \<le> t" "t \<le> 2 ^ 32" "index \<le> 2"
    using that by (intro startTime_close) simp_all
  ultimately show ?thesis using att by simp
qed

theorem onMessage_kick_Cmaj_witness:
  \<open>attacks (calls (snd (onMessage sample_env (playInstrument sample_env (Some loadSynths))
       ''{"kick":"Cmaj"}'' world0))) =
     [(''kick'', ''C4'', Num (5685794529555251 / 562949953421312)),
      (''kick'', ''E4'', Num (5798384520239513 / 562949953421312)),
      (''kick'', ''G4'', Num (21 / 2))]
   \<and> \<bar>5798384520239513 / 562949953421312 - (10 + 1 * 0.2 + 0.1 :: rat)\<bar> \<le> 1 / 2 ^ 19\<close>
proof -
  have parse: \<open>JSON_parse sample_env ''{"kick":"Cmaj"}'' = Inr (JObject [(''kick'', JString ''Cmaj'')])\<close>
    by (simp add: sample_env_def)
  have quiet: "\<forall>h c. \<not> raises sample_env h c"
    by (simp add: sample_env_def)
  have "clock sample_env = (\<lambda>n. Num 10)" by (simp add: sample_env_def)
  then show ?thesis
    using onMessage_kick_Cmaj [OF parse quiet, of loadSynths world0 10 1]
    by (simp add: world0_def attacks_def startTime_at_10)
qed

text \<open>
  As the claim words it, the attack times lie exactly 0.1, 0.3 and 0.5 seconds after the
  current time. At a clock reading of 10 the second attack time is 10.299999999999999: it
  is neither the rational \<open>10 + 0.3\<close> nor the double nearest to it.
\<close>

theorem onMessage_kick_Cmaj_exact_offsets_counterexample:
  \<open>attacks (calls (snd (onMessage sample_env (playInstrument sample_env (Some loadSynths))
       ''{"kick":"Cmaj"}'' world0))) \<noteq>
     [(''kick'', ''C4'', Num (10 + 0.1)), (''kick'', ''E4'', Num (10 + 0.3)),
      (''kick'', ''G4'', Num (10 + 0.5))]
 \<and> attacks (calls (snd (onMessage sample_env (playInstrument sample_env (Some loadSynths))
       ''{"kick":"Cmaj"}'' world0))) \<noteq>
     [(''kick'', ''C4'', to_double (10 + 0.1)), (''kick'', ''E4'', to_double (10 + 0.3)),
      (''kick'', ''G4'', to_double (10 + 0.5))]\<close>
proof -
  have e4: "to_double (10 + 0.3) = Num (2899192260119757 / 281474976710656)"
    using to_double_eqI [of 3 "10 + 0.3" 5798384520239514] by (simp add: pow2_def)
  show ?thesis
    using e4 by (simp add: sample_kick_Cmaj_attacks)
qed

text \<open>
  C6. When the payload parses to a JSON object, the handler invokes the dispatcher exactly
  once for each member whose value is a string, in the order of the members, with the
  member's key as the instrument and its value as the chord; members with any other value
  cause no invocation.
\<close>

theorem onMessage_dispatches_string_fields:
  assumes "JSON_parse e data = Inr (JObject members)"
  shows "\<exists>w'. onMessage e (traced (playInstrument e synths)) data ([], w) =
           (None, [(k, Some s). (k, JString s) \<leftarrow> members], w')"
  using assms dispatch_entries_traced [of e synths members "[]" w]
  by (simp add: onMessage_def)

theorem onMessage_dispatches_string_fields_witness:
  \<open>fst (snd (onMessage sample_env (traced (playInstrument sample_env (Some loadSynths)))
       ''{"piano":"Amin","volume":7,"snare":"C"}'' ([], world0))) =
     [(''piano'', Some ''Amin''), (''snare'', Some ''C'')]\<close>
proof -
  have parse: \<open>JSON_parse sample_env ''{"piano":"Amin","volume":7,"snare":"C"}'' =
      Inr (JObject [(''piano'', JString ''Amin''), (''volume'', JNumber (Num 7)), (''snare'', JString ''C'')])\<close>
    by (simp add: sample_env_def)
  show ?thesis
    using onMessage_dispatches_string_fields [OF parse, of "Some loadSynths" world0] by auto
qed

text \<open>
  C7. When the payload is not valid JSON, the parse failure leaves the handler uncaught:
  the handler ends with that exception (its promise is rejected), having dispatched
  nothing.
\<close>

theorem onMessage_parse_failure_uncaught:
  assumes "JSON_parse e data = Inl err"
  shows "onMessage e play data w = (Some err, w)"
  using assms by (simp add: onMessage_def)

theorem onMessage_parse_failure_uncaught_witness:
  "onMessage sample_env (playInstrument sample_env (Some loadSynths)) ''{kick:'' world0 =
     (Some SyntaxError, world0)"
proof -
  have "JSON_parse sample_env ''{kick:'' = Inl SyntaxError"
    by (simp add: sample_env_def)
  then show ?thesis by (rule onMessage_parse_failure_uncaught)
qed

subsection \<open>Audio context controls\<close>

text \<open>
  C8. Starting audio while the context state is \<open>running\<close> makes no \<open>resume\<close> call and
  changes nothing; stopping audio while the state is anything but \<open>running\<close> makes no
  \<open>close\<close> call and changes nothing.
\<close>

theorem audio_controls_noop:
  "(ctx w = ''running'' \<longrightarrow> handleStartAudio e w = w)
 \<and> (ctx w \<noteq> ''running'' \<longrightarrow> handleStopAudio e w = w)"
  by (simp add: handleStartAudio_def handleStopAudio_def)

theorem audio_controls_noop_witness:
  "handleStartAudio sample_env (world0\<lparr>ctx := ''running''\<rparr>) = world0\<lparr>ctx := ''running''\<rparr>
 \<and> handleStopAudio sample_env world0 = world0"
  using audio_controls_noop [of "world0\<lparr>ctx := ''running''\<rparr>" sample_env]
        audio_controls_noop [of world0 sample_env]
  by (simp add: world0_def)

end
